theory Spec2Isabelle
  imports Complex_Main "HOL-Library.AList" "HOL-Library.Multiset"
begin

section \<open>Values, errors and the data model\<close>

text \<open>
  The adapter \<^verbatim>\<open>ChromaVector\<close> (chroma\_vector.py) is embedded function by function.

  Python floats are kept abstract: a type \<open>'f\<close> with a linear order, \<open>0\<close>, \<open>1\<close> and a
  subtraction of which nothing is assumed, so that every statement below holds whatever
  \<open>1 - d\<close> rounds to. A NaN is outside such a type; a NaN score never passes the
  threshold test of line 123, so no NaN reaches the sort of line 131.

  Exceptions are values: a function that can raise returns \<open>error + 'a\<close>.
\<close>

datatype error = IndexError | KeyError | TypeError | ValueError | AttributeError

text \<open>Metadata values are the scalars the backend stores: str, int, float, bool.\<close>

datatype 'f pyval = PStr string | PInt int | PFloat 'f | PBool bool

text \<open>
  A Python dict keeps insertion order, and an assignment to an existing key keeps the
  key's position: an association list with \<^const>\<open>AList.update\<close>.
\<close>

type_synonym 'f metadata_dict = "(string \<times> 'f pyval) list"

record 'f Document =
  page_content :: string
  metadata :: "'f metadata_dict option"

text \<open>
  \<^verbatim>\<open>QueryResult\<close>: the backend's answer to one query, as parallel arrays with one row
  per query embedding. A field the backend left out is \<open>None\<close>.
\<close>

record 'f QueryResult =
  ids :: "string list list option"
  documents :: "string list list option"
  metadatas :: "'f metadata_dict list list option"
  distances :: "'f list list option"

text \<open>
  The keyword arguments \<^verbatim>\<open>search_by_vector\<close> reads; \<open>None\<close> is a key not passed. They
  have the types of the contract: \<^verbatim>\<open>top_k\<close> an integer, \<^verbatim>\<open>score_threshold\<close> a number (so
  that \<^verbatim>\<open>float\<close> on line 107 converts and does not raise), the filter a list of ids.
\<close>

record 'f search_kwargs =
  top_k :: "int option"
  score_threshold :: "'f option"
  document_ids_filter :: "string list option"

text \<open>Python's \<^verbatim>\<open>not x\<close> on an optional list: true for \<^verbatim>\<open>None\<close> and for \<^verbatim>\<open>[]\<close>.\<close>

definition py_not :: "'a list option \<Rightarrow> bool" where
  "py_not x = (case x of None \<Rightarrow> True | Some xs \<Rightarrow> xs = [])"

text \<open>\<^verbatim>\<open>xs[i]\<close> for an index that is never negative.\<close>

definition py_index :: "'a list \<Rightarrow> nat \<Rightarrow> error + 'a" where
  "py_index xs i = (if i < length xs then Inr (xs ! i) else Inl IndexError)"

section \<open>search\_by\_vector: thresholding and ranking (lines 107 to 132)\<close>

text \<open>\<^verbatim>\<open>float(kwargs.get("score_threshold") or 0.0)\<close>\<close>

definition get_score_threshold :: "('f::{linorder,zero,one,minus}) search_kwargs \<Rightarrow> 'f" where
  "get_score_threshold kwargs =
     (case score_threshold kwargs of
        None \<Rightarrow> 0
      | Some t \<Rightarrow> if t = 0 then 0 else t)"

text \<open>
  The loop of lines 119 to 129, over the indices \<^verbatim>\<open>range(len(ids))\<close>, with the list
  \<^verbatim>\<open>docs\<close> as accumulator. Each subscript raises IndexError past the end of its row,
  in the order the source evaluates them.
\<close>

fun search_loop ::
  "string list \<Rightarrow> ('f::{linorder,zero,one,minus}) metadata_dict list \<Rightarrow> 'f list \<Rightarrow> 'f
     \<Rightarrow> nat list \<Rightarrow> 'f Document list \<Rightarrow> error + 'f Document list" where
  "search_loop documents_row metadatas_row distances_row threshold [] docs = Inr docs"
| "search_loop documents_row metadatas_row distances_row threshold (index # rest) docs =
     (case py_index distances_row index of
        Inl e \<Rightarrow> Inl e
      | Inr distance \<Rightarrow>
         (case py_index metadatas_row index of
            Inl e \<Rightarrow> Inl e
          | Inr metadata0 \<Rightarrow>
             (let score = 1 - distance in
              if score > threshold then
                (case py_index documents_row index of
                   Inl e \<Rightarrow> Inl e
                 | Inr content \<Rightarrow>
                     search_loop documents_row metadatas_row distances_row threshold rest
                       (docs @ [\<lparr>page_content = content,
                                 metadata = Some (AList.update ''score'' (PFloat score) metadata0)\<rparr>]))
              else search_loop documents_row metadatas_row distances_row threshold rest docs)))"

text \<open>
  The sort key of line 131: \<^verbatim>\<open>x.metadata["score"] if x.metadata is not None else 0\<close>.
  A missing key raises KeyError. Line 124 has stored a float under the key in
  every Document that reaches the sort; a value of another type is answered with
  TypeError here, a branch the adapter never takes (lemma \<open>search_loop_keys\<close>).
\<close>

definition score_key :: "('f::{linorder,zero,one,minus}) Document \<Rightarrow> error + 'f" where
  "score_key x =
     (case metadata x of
        None \<Rightarrow> Inr 0
      | Some m \<Rightarrow>
         (case map_of m ''score'' of
            None \<Rightarrow> Inl KeyError
          | Some (PFloat s) \<Rightarrow> Inr s
          | Some _ \<Rightarrow> Inl TypeError))"

text \<open>The keys of all elements are computed before any comparison; the first failure raises.\<close>

fun compute_keys :: "('a \<Rightarrow> error + 'k) \<Rightarrow> 'a list \<Rightarrow> error + 'k list" where
  "compute_keys key [] = Inr []"
| "compute_keys key (x # xs) =
     (case key x of
        Inl e \<Rightarrow> Inl e
      | Inr k \<Rightarrow> (case compute_keys key xs of Inl e \<Rightarrow> Inl e | Inr ks \<Rightarrow> Inr (k # ks)))"

text \<open>
  \<^verbatim>\<open>sorted(docs, key=..., reverse=True)\<close>. The interpreter pairs each element with its
  key, reverses the list, runs its stable ascending sort on the keys and reverses the
  outcome: \<^const>\<open>sort_key\<close> is the stable ascending sort.
\<close>

definition sorted_reverse :: "('a \<Rightarrow> error + 'k::linorder) \<Rightarrow> 'a list \<Rightarrow> error + 'a list" where
  "sorted_reverse key xs =
     (case compute_keys key xs of
        Inl e \<Rightarrow> Inl e
      | Inr ks \<Rightarrow> Inr (map snd (rev (sort_key fst (rev (zip ks xs))))))"

text \<open>Lines 107 to 132: what \<^verbatim>\<open>search_by_vector\<close> does with the backend's answer.\<close>

definition rank_results ::
  "('f::{linorder,zero,one,minus}) QueryResult \<Rightarrow> 'f search_kwargs \<Rightarrow> error + 'f Document list" where
  "rank_results results kwargs =
     (let threshold = get_score_threshold kwargs in
      if py_not (ids results) \<or> py_not (documents results)
         \<or> py_not (metadatas results) \<or> py_not (distances results)
      then Inr []
      else
        (let ids_row = hd (the (ids results));
             documents_row = hd (the (documents results));
             metadatas_row = hd (the (metadatas results));
             distances_row = hd (the (distances results))
         in case search_loop documents_row metadatas_row distances_row threshold
                   [0 ..< length ids_row] []
            of Inl e \<Rightarrow> Inl e
             | Inr docs \<Rightarrow> sorted_reverse score_key docs))"

section \<open>The collaborators: cache store, lock provider, backend engine\<close>

text \<open>
  The adapter talks to three collaborators that are not part of the repository: the
  redis client (cache entries and named locks) and the chromadb client. They are
  modelled as one explicit state, the \<open>world\<close>, that every operation takes and returns:
  the cache store, the collections of the backend, and the log of the calls issued, in
  order. The model is of one caller: a lock is granted when asked for.
\<close>

record 'f entry =
  entry_document :: string
  entry_embedding :: "'f list"
  entry_metadata :: "'f metadata_dict option"

type_synonym 'f collection = "(string \<times> 'f entry) list"

datatype 'f call =
    LockAcquire string nat
  | LockRelease string
  | RedisGet string
  | RedisSet string string nat
  | GetOrCreateCollection string
  | Upsert string "string list" "string list" "'f list list" "'f metadata_dict option list"
  | Delete string "string list"
  | Get string "string list"
  | Query string "'f list" int "string list option"

record 'f world =
  redis :: "(string \<times> string \<times> nat) list"
  chroma :: "(string \<times> 'f collection) list"
  calls :: "'f call list"

fun is_backend_call :: "'f call \<Rightarrow> bool" where
  "is_backend_call (LockAcquire n t) = False"
| "is_backend_call (LockRelease n) = False"
| "is_backend_call (RedisGet k) = False"
| "is_backend_call (RedisSet k v ex) = False"
| "is_backend_call c = True"

definition log_call :: "'f call \<Rightarrow> 'f world \<Rightarrow> 'f world" where
  "log_call c w = w\<lparr>calls := calls w @ [c]\<rparr>"

text \<open>\<^verbatim>\<open>redis_client.lock(name, timeout=t)\<close> entered and left by the \<^verbatim>\<open>with\<close> statement.\<close>

definition lock_acquire :: "string \<Rightarrow> nat \<Rightarrow> 'f world \<Rightarrow> 'f world" where
  "lock_acquire lock_name timeout w = log_call (LockAcquire lock_name timeout) w"

definition lock_release :: "string \<Rightarrow> 'f world \<Rightarrow> 'f world" where
  "lock_release lock_name w = log_call (LockRelease lock_name) w"

text \<open>\<^verbatim>\<open>redis_client.get(key)\<close>: the stored bytes, or \<^verbatim>\<open>None\<close>.\<close>

definition redis_get :: "string \<Rightarrow> 'f world \<Rightarrow> 'f world \<times> string option" where
  "redis_get key w = (log_call (RedisGet key) w, map_option fst (map_of (redis w) key))"

text \<open>\<^verbatim>\<open>redis_client.set(key, value, ex=seconds)\<close>\<close>

definition redis_set :: "string \<Rightarrow> string \<Rightarrow> nat \<Rightarrow> 'f world \<Rightarrow> 'f world" where
  "redis_set key val ex w =
     log_call (RedisSet key val ex) (w\<lparr>redis := AList.update key (val, ex) (redis w)\<rparr>)"

text \<open>Truth value of what \<^verbatim>\<open>get\<close> returned: \<^verbatim>\<open>None\<close> and empty bytes are false.\<close>

definition py_truthy :: "string option \<Rightarrow> bool" where
  "py_truthy v = (case v of None \<Rightarrow> False | Some s \<Rightarrow> s \<noteq> [])"

text \<open>The entries of a collection in the backend; a collection that does not exist has none.\<close>

definition entries_of :: "'f world \<Rightarrow> string \<Rightarrow> 'f collection" where
  "entries_of w name = (case map_of (chroma w) name of None \<Rightarrow> [] | Some c \<Rightarrow> c)"

text \<open>\<^verbatim>\<open>client.get_or_create_collection(name)\<close>: creates the collection, empty, when absent.\<close>

definition get_or_create_collection :: "string \<Rightarrow> 'f world \<Rightarrow> 'f world" where
  "get_or_create_collection name w =
     log_call (GetOrCreateCollection name)
       (case map_of (chroma w) name of
          None \<Rightarrow> w\<lparr>chroma := AList.update name [] (chroma w)\<rparr>
        | Some c \<Rightarrow> w)"

text \<open>
  \<^verbatim>\<open>collection.upsert(ids, documents, embeddings, metadatas)\<close>: the four arrays are
  parallel, and the backend refuses arrays of different lengths. An id already there
  has its entry replaced.
\<close>

fun upsert_entries ::
  "string list \<Rightarrow> string list \<Rightarrow> 'f list list \<Rightarrow> 'f metadata_dict option list
     \<Rightarrow> 'f collection \<Rightarrow> 'f collection" where
  "upsert_entries (i # is) (d # ds) (e # es) (m # ms) c =
     upsert_entries is ds es ms
       (AList.update i \<lparr>entry_document = d, entry_embedding = e, entry_metadata = m\<rparr> c)"
| "upsert_entries is ds es ms c = c"

definition collection_upsert ::
  "string \<Rightarrow> string list \<Rightarrow> string list \<Rightarrow> 'f list list \<Rightarrow> 'f metadata_dict option list
     \<Rightarrow> 'f world \<Rightarrow> 'f world \<times> (error + unit)" where
  "collection_upsert name uuids texts embeddings metas w =
     (let w1 = log_call (Upsert name uuids texts embeddings metas) w in
      if length texts = length uuids \<and> length embeddings = length uuids
         \<and> length metas = length uuids
      then (w1\<lparr>chroma := AList.update name
                   (upsert_entries uuids texts embeddings metas (entries_of w1 name)) (chroma w1)\<rparr>,
            Inr ())
      else (w1, Inl ValueError))"

text \<open>\<^verbatim>\<open>collection.delete(ids=ids)\<close>: an id that is not there is passed over.\<close>

definition collection_delete :: "string \<Rightarrow> string list \<Rightarrow> 'f world \<Rightarrow> 'f world" where
  "collection_delete name id_list w =
     (let w1 = log_call (Delete name id_list) w in
      w1\<lparr>chroma := AList.update name
               (filter (\<lambda>kv. fst kv \<notin> set id_list) (entries_of w1 name)) (chroma w1)\<rparr>)"

text \<open>
  \<^verbatim>\<open>collection.get(ids=ids)\<close> answers with a \<^verbatim>\<open>GetResult\<close>: a dict that always has the
  same keys, one per result field, whose values are the parallel arrays of the entries
  found (embeddings are not included unless asked for).
\<close>

datatype 'f result_field =
    FIds "string list"
  | FEmbeddings "'f list list option"
  | FDocuments "string list option"
  | FMetadatas "'f metadata_dict option list option"

definition collection_get ::
  "string \<Rightarrow> string list \<Rightarrow> 'f world \<Rightarrow> 'f world \<times> (string \<times> 'f result_field) list" where
  "collection_get name id_list w =
     (let found = filter (\<lambda>kv. fst kv \<in> set id_list) (entries_of w name) in
      (log_call (Get name id_list) w,
       [(''ids'', FIds (map fst found)),
        (''embeddings'', FEmbeddings None),
        (''documents'', FDocuments (Some (map (\<lambda>kv. entry_document (snd kv)) found))),
        (''metadatas'', FMetadatas (Some (map (\<lambda>kv. entry_metadata (snd kv)) found)))]))"

section \<open>The adapter ChromaVector\<close>

record ChromaConfig =
  host :: string
  port :: int
  tenant :: string
  database :: string
  auth_provider :: "string option"
  auth_credentials :: "string option"

record ChromaVector =
  self_collection_name :: string
  client_config :: ChromaConfig

text \<open>Lines 59 to 66.\<close>

definition create_collection :: "ChromaVector \<Rightarrow> string \<Rightarrow> 'f world \<Rightarrow> 'f world" where
  "create_collection self collection_name w =
     (let lock_name = ''vector_indexing_lock_'' @ collection_name;
          w1 = lock_acquire lock_name 20 w;
          collection_exist_cache_key = ''vector_indexing_'' @ self_collection_name self;
          (w2, cached) = redis_get collection_exist_cache_key w1
      in if py_truthy cached then lock_release lock_name w2
         else
           (let w3 = get_or_create_collection collection_name w2;
                w4 = redis_set collection_exist_cache_key ''1'' 3600 w3
            in lock_release lock_name w4))"

text \<open>
  Lines 68 to 75. \<^verbatim>\<open>BaseVector._get_uuids\<close> is inherited from a file that is not among
  the sources: it is the parameter \<open>get_uuids\<close>.
\<close>

definition add_texts ::
  "('f Document list \<Rightarrow> string list) \<Rightarrow> ChromaVector \<Rightarrow> 'f Document list \<Rightarrow> 'f list list
     \<Rightarrow> 'f world \<Rightarrow> 'f world \<times> (error + unit)" where
  "add_texts get_uuids self documents_arg embeddings w =
     (let uuids = get_uuids documents_arg;
          texts = map page_content documents_arg;
          metas = map metadata documents_arg;
          w1 = get_or_create_collection (self_collection_name self) w
      in collection_upsert (self_collection_name self) uuids texts embeddings metas w1)"

text \<open>Lines 52 to 57.\<close>

definition create ::
  "('f Document list \<Rightarrow> string list) \<Rightarrow> ChromaVector \<Rightarrow> 'f Document list \<Rightarrow> 'f list list
     \<Rightarrow> 'f world \<Rightarrow> 'f world \<times> (error + unit)" where
  "create get_uuids self texts embeddings w =
     (if texts \<noteq> [] then
        add_texts get_uuids self texts embeddings
          (create_collection self (self_collection_name self) w)
      else (w, Inr ()))"

text \<open>Lines 85 to 89.\<close>

definition delete_by_ids :: "ChromaVector \<Rightarrow> string list \<Rightarrow> 'f world \<Rightarrow> 'f world" where
  "delete_by_ids self id_list w =
     (if id_list = [] then w
      else collection_delete (self_collection_name self) id_list
             (get_or_create_collection (self_collection_name self) w))"

text \<open>Lines 91 to 94: \<^verbatim>\<open>len(response)\<close> counts the keys of the dict.\<close>

definition text_exists :: "ChromaVector \<Rightarrow> string \<Rightarrow> 'f world \<Rightarrow> 'f world \<times> bool" where
  "text_exists self ident w =
     (let w1 = get_or_create_collection (self_collection_name self) w;
          (w2, response) = collection_get (self_collection_name self) [ident] w1
      in (w2, length response > 0))"

text \<open>
  Lines 96 to 132. The nearest-neighbour query of the backend is the parameter
  \<open>query\<close>: from the entries of the collection, the query embedding, \<^verbatim>\<open>n_results\<close> and
  the \<^verbatim>\<open>document_id\<close> filter (when one is passed) to a \<^verbatim>\<open>QueryResult\<close>.
\<close>

definition search_by_vector ::
  "(('f::{linorder,zero,one,minus}) collection \<Rightarrow> 'f list \<Rightarrow> int \<Rightarrow> string list option \<Rightarrow> 'f QueryResult)
     \<Rightarrow> ChromaVector \<Rightarrow> 'f list \<Rightarrow> 'f search_kwargs
     \<Rightarrow> 'f world \<Rightarrow> 'f world \<times> (error + 'f Document list)" where
  "search_by_vector query self query_vector kwargs w =
     (let w1 = get_or_create_collection (self_collection_name self) w;
          ids_filter = (if py_not (document_ids_filter kwargs) then None
                        else document_ids_filter kwargs);
          n_results = (case top_k kwargs of None \<Rightarrow> 4 | Some k \<Rightarrow> k);
          results = query (entries_of w1 (self_collection_name self)) query_vector n_results ids_filter;
          w2 = log_call (Query (self_collection_name self) query_vector n_results ids_filter) w1
      in (w2, rank_results results kwargs))"

text \<open>Lines 134 to 136.\<close>

definition search_by_full_text ::
  "ChromaVector \<Rightarrow> string \<Rightarrow> 'k \<Rightarrow> 'f world \<Rightarrow> 'f world \<times> (error + 'f Document list)" where
  "search_by_full_text self query kwargs w = (w, Inr [])"

section \<open>The factory ChromaVectorFactory\<close>

text \<open>
  The index structure is a JSON document: objects with string keys, and strings.
\<close>

datatype json = JString string | JObject "(string \<times> json) list"

text \<open>
  Modelled from the spec: the Dataset entity (models/dataset.py) is not among the
  sources. The spec gives it an \<^verbatim>\<open>id\<close>, a readable \<^verbatim>\<open>index_struct_dict\<close> (a mapping, or
  absent) and a writable \<^verbatim>\<open>index_struct\<close> that holds the serialised mapping. The
  serialised text is represented by the JSON value it denotes, so that
  \<^verbatim>\<open>index_struct_dict\<close> reads back what \<^verbatim>\<open>json.dumps\<close> was given.
\<close>

record Dataset =
  id' :: string
  index_struct :: "json option"

definition index_struct_dict :: "Dataset \<Rightarrow> json option" where
  "index_struct_dict dataset = index_struct dataset"

text \<open>Truth value of an optional JSON value: \<^verbatim>\<open>None\<close>, the empty mapping and the empty string are false.\<close>

definition json_truthy :: "json option \<Rightarrow> bool" where
  "json_truthy j =
     (case j of
        None \<Rightarrow> False
      | Some (JString s) \<Rightarrow> s \<noteq> []
      | Some (JObject kvs) \<Rightarrow> kvs \<noteq> [])"

text \<open>\<^verbatim>\<open>d[key]\<close>: KeyError for a missing key, TypeError on a value that is not a mapping.\<close>

definition json_item :: "json \<Rightarrow> string \<Rightarrow> error + json" where
  "json_item d key =
     (case d of
        JString s \<Rightarrow> Inl TypeError
      | JObject kvs \<Rightarrow> (case map_of kvs key of None \<Rightarrow> Inl KeyError | Some v \<Rightarrow> Inr v))"

text \<open>
  \<^verbatim>\<open>str.lower()\<close>. Collection names are derived from dataset ids and are ASCII; on
  ASCII the method maps the letters A to Z to a to z and leaves every other character.
\<close>

definition lower_char :: "char \<Rightarrow> char" where
  "lower_char c =
     (if (65::nat) \<le> of_char c \<and> of_char c \<le> (90::nat)
      then char_of (of_char c + (32::nat)) else c)"

definition lower :: "string \<Rightarrow> string" where
  "lower s = map lower_char s"

text \<open>The process-wide settings \<^verbatim>\<open>dify_config\<close> that the factory reads.\<close>

record DifyConfig =
  CHROMA_HOST :: "string option"
  CHROMA_PORT :: int
  CHROMA_TENANT :: "string option"
  CHROMA_DATABASE :: "string option"
  CHROMA_AUTH_PROVIDER :: "string option"
  CHROMA_AUTH_CREDENTIALS :: "string option"

text \<open>\<^verbatim>\<open>x or default\<close> on an optional string.\<close>

definition py_or :: "string option \<Rightarrow> string \<Rightarrow> string" where
  "py_or x d = (case x of None \<Rightarrow> d | Some s \<Rightarrow> if s = [] then d else s)"

definition DEFAULT_TENANT :: string where
  "DEFAULT_TENANT = ''default_tenant''"

definition DEFAULT_DATABASE :: string where
  "DEFAULT_DATABASE = ''default_database''"

text \<open>
  Lines 140 to 160. \<^verbatim>\<open>Dataset.gen_collection_name_by_id\<close> and the constant
  \<^verbatim>\<open>VectorType.CHROMA\<close> live in files that are not among the sources: they are the
  parameters \<open>gen_collection_name_by_id\<close> and \<open>vector_type\<close>. The dataset is mutated in
  place by the source, so the function returns it next to the adapter.
\<close>

definition init_vector ::
  "(string \<Rightarrow> string) \<Rightarrow> string \<Rightarrow> DifyConfig \<Rightarrow> Dataset \<Rightarrow> error + (Dataset \<times> ChromaVector)" where
  "init_vector gen_collection_name_by_id vector_type dify_config dataset =
     (case
        (if json_truthy (index_struct_dict dataset) then
           (case json_item (the (index_struct_dict dataset)) ''vector_store'' of
              Inl e \<Rightarrow> Inl e
            | Inr vector_store \<Rightarrow>
               (case json_item vector_store ''class_prefix'' of
                  Inl e \<Rightarrow> Inl e
                | Inr (JString class_prefix) \<Rightarrow> Inr (dataset, lower class_prefix)
                | Inr (JObject kvs) \<Rightarrow> Inl AttributeError))
         else
           (let dataset_id = id' dataset;
                collection_name = lower (gen_collection_name_by_id dataset_id);
                new_index_struct_dict =
                  JObject [(''type'', JString vector_type),
                           (''vector_store'', JObject [(''class_prefix'', JString collection_name)])]
            in Inr (dataset\<lparr>index_struct := Some new_index_struct_dict\<rparr>, collection_name)))
      of Inl e \<Rightarrow> Inl e
       | Inr (dataset1, collection_name) \<Rightarrow>
           Inr (dataset1,
                \<lparr>self_collection_name = collection_name,
                 client_config =
                   \<lparr>host = py_or (CHROMA_HOST dify_config) [],
                    port = CHROMA_PORT dify_config,
                    tenant = py_or (CHROMA_TENANT dify_config) DEFAULT_TENANT,
                    database = py_or (CHROMA_DATABASE dify_config) DEFAULT_DATABASE,
                    auth_provider = CHROMA_AUTH_PROVIDER dify_config,
                    auth_credentials = CHROMA_AUTH_CREDENTIALS dify_config\<rparr>\<rparr>))"

section \<open>Vocabulary of the statements\<close>

text \<open>
  The answer the backend gives to the one query that \<^const>\<open>search_by_vector\<close> issues:
  on the collection as \<^verbatim>\<open>get_or_create_collection\<close> leaves it, with \<^verbatim>\<open>n_results\<close> taken
  from \<^verbatim>\<open>top_k\<close> (4 when not passed) and the filter when one is passed.
\<close>

definition n_results_of :: "'f search_kwargs \<Rightarrow> int" where
  "n_results_of kwargs = (case top_k kwargs of None \<Rightarrow> 4 | Some k \<Rightarrow> k)"

definition backend_answer ::
  "('f collection \<Rightarrow> 'f list \<Rightarrow> int \<Rightarrow> string list option \<Rightarrow> 'f QueryResult)
     \<Rightarrow> ChromaVector \<Rightarrow> 'f list \<Rightarrow> 'f search_kwargs \<Rightarrow> 'f world \<Rightarrow> 'f QueryResult" where
  "backend_answer query self query_vector kwargs w =
     query (entries_of (get_or_create_collection (self_collection_name self) w)
              (self_collection_name self))
       query_vector (n_results_of kwargs)
       (if py_not (document_ids_filter kwargs) then None else document_ids_filter kwargs)"

text \<open>The first row of a field of the answer; no row when the field is absent or empty.\<close>

definition first_row :: "'a list list option \<Rightarrow> 'a list" where
  "first_row x = (case x of None \<Rightarrow> [] | Some [] \<Rightarrow> [] | Some (r # rs) \<Rightarrow> r)"

text \<open>
  The arrays of an answer are parallel: the rows of documents, metadatas and distances
  are as long as the row of ids. An answer with an absent or empty field has no
  candidates and is parallel.
\<close>

definition parallel_rows :: "'f QueryResult \<Rightarrow> bool" where
  "parallel_rows results =
     (if py_not (ids results) \<or> py_not (documents results)
         \<or> py_not (metadatas results) \<or> py_not (distances results)
      then True
      else length (first_row (documents results)) = length (first_row (ids results))
         \<and> length (first_row (metadatas results)) = length (first_row (ids results))
         \<and> length (first_row (distances results)) = length (first_row (ids results)))"

text \<open>
  The spec's words for the outcome, next to the code's: candidate \<open>i\<close> of the answer has
  the score \<open>1 - d\<close> for its distance \<open>d\<close>, and becomes the Document with its text, and
  its metadata with the score stored under \<^verbatim>\<open>"score"\<close>.
\<close>

definition spec_score :: "('f::{linorder,zero,one,minus}) QueryResult \<Rightarrow> nat \<Rightarrow> 'f" where
  "spec_score results i = 1 - first_row (distances results) ! i"

definition spec_document :: "('f::{linorder,zero,one,minus}) QueryResult \<Rightarrow> nat \<Rightarrow> 'f Document" where
  "spec_document results i =
     \<lparr>page_content = first_row (documents results) ! i,
      metadata = Some (AList.update ''score'' (PFloat (spec_score results i))
                         (first_row (metadatas results) ! i))\<rparr>"

text \<open>
  The candidates the spec retains, in the order the backend listed them: those whose
  score is strictly above the threshold; none when a field is absent or empty.
\<close>

definition spec_retained ::
  "('f::{linorder,zero,one,minus}) QueryResult \<Rightarrow> 'f search_kwargs \<Rightarrow> nat list" where
  "spec_retained results kwargs =
     (if py_not (ids results) \<or> py_not (documents results)
         \<or> py_not (metadatas results) \<or> py_not (distances results)
      then []
      else filter (\<lambda>i. spec_score results i > get_score_threshold kwargs)
             [0 ..< length (first_row (ids results))])"

text \<open>The score a Document carries, read the way the sort key reads it.\<close>

definition score_of :: "('f::{linorder,zero,one,minus}) Document \<Rightarrow> 'f" where
  "score_of x = (case score_key x of Inl e \<Rightarrow> 0 | Inr s \<Rightarrow> s)"

text \<open>Every value in the cache store is a sentinel: not empty (the adapter writes \<^verbatim>\<open>1\<close>).\<close>

definition cache_sentinels :: "'f world \<Rightarrow> bool" where
  "cache_sentinels w = list_all (\<lambda>kv. fst (snd kv) \<noteq> []) (redis w)"

text \<open>The names of the lock and of the cache entry, as lines 60 and 62 build them.\<close>

definition lock_name_of :: "string \<Rightarrow> string" where
  "lock_name_of collection_name = ''vector_indexing_lock_'' @ collection_name"

definition cache_key_of :: "ChromaVector \<Rightarrow> string" where
  "cache_key_of self = ''vector_indexing_'' @ self_collection_name self"

text \<open>
  Two abbreviations for the proofs: the Document the loop builds from position \<open>i\<close> of the
  three rows, and the outcome of the sort of line 131 when every key is computed by \<open>f\<close>.
\<close>

definition mk_doc ::
  "string list \<Rightarrow> ('f::{linorder,zero,one,minus}) metadata_dict list \<Rightarrow> 'f list \<Rightarrow> nat \<Rightarrow> 'f Document" where
  "mk_doc ds ms xs i =
     \<lparr>page_content = ds ! i,
      metadata = Some (AList.update ''score'' (PFloat (1 - xs ! i)) (ms ! i))\<rparr>"

definition desc_sort :: "('a \<Rightarrow> 'k::linorder) \<Rightarrow> 'a list \<Rightarrow> 'a list" where
  "desc_sort f xs = map snd (rev (sort_key fst (rev (zip (map f xs) xs))))"

section \<open>Concrete inputs\<close>

text \<open>
  The scenario of the spec: the Documents \<open>a\<close> and \<open>b\<close> are indexed, the backend answers
  the query with the distances 0.1 and 1.4, and the caller asks for \<^verbatim>\<open>top_k=2\<close> and
  \<^verbatim>\<open>score_threshold=0.5\<close>. Floats are read as reals here.
\<close>

definition example_self :: ChromaVector where
  "example_self =
     \<lparr>self_collection_name = ''vector_index_d1_node'',
      client_config = \<lparr>host = ''localhost'', port = 8000, tenant = DEFAULT_TENANT,
                       database = DEFAULT_DATABASE, auth_provider = None,
                       auth_credentials = None\<rparr>\<rparr>"

definition example_world :: "real world" where
  "example_world = \<lparr>redis = [], chroma = [], calls = []\<rparr>"


definition example_kwargs :: "real search_kwargs" where
  "example_kwargs = \<lparr>top_k = Some 2, score_threshold = Some (1/2), document_ids_filter = None\<rparr>"

text \<open>Three candidates, two of them with the same distance, and no threshold passed.\<close>

definition example_ties :: "real QueryResult" where
  "example_ties =
     \<lparr>ids = Some [[''id-a'', ''id-b'', ''id-c'']],
      documents = Some [[''a'', ''b'', ''c'']],
      metadatas = Some [[[], [], []]],
      distances = Some [[1/2, 1/10, 1/2]]\<rparr>"

definition example_kwargs_default :: "real search_kwargs" where
  "example_kwargs_default = \<lparr>top_k = None, score_threshold = None, document_ids_filter = None\<rparr>"

text \<open>An answer without documents.\<close>

definition example_malformed :: "real QueryResult" where
  "example_malformed =
     \<lparr>ids = Some [[''id-a'']], documents = None, metadatas = Some [[[]]],
      distances = Some [[1/10]]\<rparr>"

text \<open>
  Indexing the two Documents of the scenario. The ids are the ones the caller supplied
  in the metadata under \<^verbatim>\<open>doc_id\<close>.
\<close>

definition example_docs :: "real Document list" where
  "example_docs =
     [\<lparr>page_content = ''a'', metadata = Some [(''doc_id'', PStr ''id-a'')]\<rparr>,
      \<lparr>page_content = ''b'', metadata = Some [(''doc_id'', PStr ''id-b'')]\<rparr>]"

definition example_embeddings :: "real list list" where
  "example_embeddings = [[1, 0], [0, 1]]"

definition example_get_uuids :: "real Document list \<Rightarrow> string list" where
  "example_get_uuids docs =
     concat (map (\<lambda>d. case metadata d of
                          None \<Rightarrow> []
                        | Some m \<Rightarrow> (case map_of m ''doc_id'' of Some (PStr s) \<Rightarrow> [s] | _ \<Rightarrow> []))
               docs)"

definition example_indexed :: "real world" where
  "example_indexed =
     fst (create example_get_uuids example_self example_docs example_embeddings example_world)"

text \<open>A dataset without an index structure, a name generator and settings.\<close>

definition example_dataset :: Dataset where
  "example_dataset = \<lparr>id' = ''D1'', index_struct = None\<rparr>"

definition example_gen :: "string \<Rightarrow> string" where
  "example_gen dataset_id = ''Vector_index_'' @ dataset_id @ ''_Node''"

definition example_config :: DifyConfig where
  "example_config =
     \<lparr>CHROMA_HOST = Some ''localhost'', CHROMA_PORT = 8000, CHROMA_TENANT = None,
      CHROMA_DATABASE = None, CHROMA_AUTH_PROVIDER = None, CHROMA_AUTH_CREDENTIALS = None\<rparr>"

section \<open>The loop and the sort\<close>

lemma py_index_lt: "i < length xs \<Longrightarrow> py_index xs i = Inr (xs ! i)"
  by (simp add: py_index_def)

lemma search_loop_eq:
  "\<forall>i \<in> set is. i < length ds \<and> i < length ms \<and> i < length xs \<Longrightarrow>
   search_loop ds ms xs thr is docs =
     Inr (docs @ map (mk_doc ds ms xs) (filter (\<lambda>i. thr < 1 - xs ! i) is))"
  by (induction "is" arbitrary: docs) (simp_all add: py_index_lt mk_doc_def Let_def)

lemma score_key_mk_doc: "score_key (mk_doc ds ms xs i) = Inr (1 - xs ! i)"
  by (simp add: score_key_def mk_doc_def update_conv')

lemma search_loop_keys:
  "search_loop ds ms xs thr is acc = Inr docs \<Longrightarrow>
   \<forall>d \<in> set acc. \<exists>s. score_key d = Inr s \<Longrightarrow>
   \<forall>d \<in> set docs. \<exists>s. score_key d = Inr s"
proof (induction "is" arbitrary: acc)
  case Nil
  then show ?case by simp
next
  case (Cons i "is")
  show ?case
  proof (cases "i < length xs \<and> i < length ms")
    case False
    with Cons.prems(1) show ?thesis
      by (auto simp add: py_index_def split: if_splits sum.splits)
  next
    case True
    show ?thesis
    proof (cases "thr < 1 - xs ! i")
      case False
      with True Cons.prems have "search_loop ds ms xs thr is acc = Inr docs"
        by (simp add: py_index_def)
      then show ?thesis using Cons.prems(2) by (rule Cons.IH)
    next
      case above: True
      show ?thesis
      proof (cases "i < length ds")
        case False
        with True above Cons.prems(1) show ?thesis by (simp add: py_index_def)
      next
        case inside: True
        let ?d = "\<lparr>page_content = ds ! i,
                   metadata = Some (AList.update ''score'' (PFloat (1 - xs ! i)) (ms ! i))\<rparr>"
        from True above inside Cons.prems(1)
        have "search_loop ds ms xs thr is (acc @ [?d]) = Inr docs"
          by (simp add: py_index_def)
        moreover have "score_key ?d = Inr (1 - xs ! i)"
          by (simp add: score_key_def update_conv')
        then have "\<forall>d \<in> set (acc @ [?d]). \<exists>s. score_key d = Inr s"
          using Cons.prems(2) by auto
        ultimately show ?thesis by (rule Cons.IH)
      qed
    qed
  qed
qed

lemma compute_keys_Inr:
  "\<forall>x \<in> set xs. key x = Inr (f x) \<Longrightarrow> compute_keys key xs = Inr (map f xs)"
  by (induction xs) simp_all

lemma sorted_reverse_Inr:
  assumes "\<forall>x \<in> set xs. key x = Inr (f x)"
  shows "sorted_reverse key xs = Inr (map snd (rev (sort_key fst (rev (zip (map f xs) xs)))))"
  by (simp add: sorted_reverse_def compute_keys_Inr [OF assms])

lemma zip_key_fst: "p \<in> set (zip (map f xs) xs) \<Longrightarrow> fst p = f (snd p)"
  by (induction xs) auto

lemma snd_zip_keys: "map snd (zip (map f xs) xs) = xs"
  by (induction xs) simp_all

lemma filter_snd_zip_keys:
  "map snd (filter (\<lambda>p. P (snd p)) (zip (map f xs) xs)) = filter P xs"
  by (induction xs) simp_all

lemma desc_sort_mset: "mset (desc_sort f xs) = mset xs"
proof -
  have "image_mset snd (mset (zip (map f xs) xs)) = mset (map snd (zip (map f xs) xs))"
    by (rule mset_map [symmetric])
  then have "image_mset snd (mset (zip (map f xs) xs)) = mset xs"
    by (simp only: snd_zip_keys)
  then show ?thesis by (simp add: desc_sort_def)
qed

lemma desc_sort_keys:
  "map f (desc_sort f xs) = rev (map fst (sort_key fst (rev (zip (map f xs) xs))))"
proof -
  have "map f (desc_sort f xs) = map (\<lambda>p. f (snd p)) (rev (sort_key fst (rev (zip (map f xs) xs))))"
    by (simp add: desc_sort_def comp_def)
  also have "\<dots> = map fst (rev (sort_key fst (rev (zip (map f xs) xs))))"
    by (rule map_cong) (auto dest: zip_key_fst)
  finally show ?thesis by (simp add: rev_map)
qed

lemma desc_sort_sorted: "sorted (rev (map f (desc_sort f xs)))"
  by (simp add: desc_sort_keys)

lemma desc_sort_stable:
  "filter (\<lambda>x. f x = s) (desc_sort f xs) = filter (\<lambda>x. f x = s) xs"
proof -
  let ?ps = "zip (map f xs) xs"
  have "filter (\<lambda>x. f x = s) (desc_sort f xs)
        = map snd (filter (\<lambda>p. f (snd p) = s) (rev (sort_key fst (rev ?ps))))"
    by (simp add: desc_sort_def filter_map comp_def)
  also have "filter (\<lambda>p. f (snd p) = s) (rev (sort_key fst (rev ?ps)))
        = filter (\<lambda>p. fst p = s) (rev (sort_key fst (rev ?ps)))"
    by (rule filter_cong) (auto dest: zip_key_fst)
  also have "\<dots> = rev (filter (\<lambda>p. fst p = s) (sort_key fst (rev ?ps)))"
    by (simp add: rev_filter)
  also have "\<dots> = rev (filter (\<lambda>p. fst p = s) (rev ?ps))"
    by (simp only: sort_key_stable)
  also have "\<dots> = filter (\<lambda>p. fst p = s) ?ps"
    by (simp add: rev_filter)
  also have "\<dots> = filter (\<lambda>p. f (snd p) = s) ?ps"
    by (rule filter_cong) (auto dest: zip_key_fst)
  also have "map snd \<dots> = filter (\<lambda>x. f x = s) xs"
    by (rule filter_snd_zip_keys)
  finally show ?thesis .
qed

section \<open>What search\_by\_vector returns\<close>

lemma hd_the_first_row: "\<not> py_not x \<Longrightarrow> hd (the x) = first_row x"
  by (auto simp add: py_not_def first_row_def split: option.splits list.splits)

lemma mk_doc_spec:
  "mk_doc (first_row (documents r)) (first_row (metadatas r)) (first_row (distances r)) i
     = spec_document r i"
  by (simp add: mk_doc_def spec_document_def spec_score_def)

lemma score_key_spec_document: "score_key (spec_document r i) = Inr (spec_score r i)"
  by (simp add: score_key_def spec_document_def update_conv')

lemma score_of_spec_document: "score_of (spec_document r i) = spec_score r i"
  by (simp add: score_of_def score_key_spec_document)

lemma rank_results_eq:
  assumes "parallel_rows r"
  shows "rank_results r kw = Inr (desc_sort score_of (map (spec_document r) (spec_retained r kw)))"
proof (cases "py_not (ids r) \<or> py_not (documents r) \<or> py_not (metadatas r) \<or> py_not (distances r)")
  case True
  then show ?thesis
    by (simp add: rank_results_def spec_retained_def desc_sort_def)
next
  case False
  let ?n = "length (first_row (ids r))"
  let ?thr = "get_score_threshold kw"
  from False assms have len:
    "length (first_row (documents r)) = ?n" "length (first_row (metadatas r)) = ?n"
    "length (first_row (distances r)) = ?n"
    by (simp_all add: parallel_rows_def)
  have loop: "search_loop (first_row (documents r)) (first_row (metadatas r))
                (first_row (distances r)) ?thr [0 ..< ?n] []
              = Inr (map (spec_document r) (spec_retained r kw))"
    using False len
    by (simp add: search_loop_eq mk_doc_spec spec_retained_def spec_score_def cong: map_cong)
  have keys: "\<forall>x \<in> set (map (spec_document r) (spec_retained r kw)). score_key x = Inr (score_of x)"
    by (auto simp add: score_key_spec_document score_of_spec_document)
  from False show ?thesis
    by (simp add: rank_results_def hd_the_first_row loop sorted_reverse_Inr [OF keys] desc_sort_def)
qed

lemma search_by_vector_snd:
  "snd (search_by_vector query self query_vector kwargs w)
     = rank_results (backend_answer query self query_vector kwargs w) kwargs"
  by (simp add: search_by_vector_def backend_answer_def n_results_of_def Let_def)



lemma example_backend:
  "backend_answer (\<lambda>c q n f. a) self qv kw w = a"
  by (simp add: backend_answer_def)

lemmas eval_defs = search_by_vector_def rank_results_def get_or_create_collection_def log_call_def
  entries_of_def py_not_def py_index_def get_score_threshold_def sorted_reverse_def score_key_def



text \<open>
  Claim C2. When the backend answers with parallel arrays and with at most
  \<^verbatim>\<open>n_results = top_k\<close> candidates (4 when \<^verbatim>\<open>top_k\<close> is not passed), the call returns at
  most \<^verbatim>\<open>top_k\<close> Documents, sorted by score in descending order, and the sort is
  stable: for every score \<open>s\<close>, the returned Documents of score \<open>s\<close> are in the order in
  which the backend listed them.
\<close>

theorem search_by_vector_ranked:
  assumes "r = backend_answer query self query_vector kwargs w"
    and "parallel_rows r"
    and "int (length (first_row (ids r))) \<le> n_results_of kwargs"
  shows "\<exists>docs. snd (search_by_vector query self query_vector kwargs w) = Inr docs
      \<and> int (length docs) \<le> n_results_of kwargs
      \<and> (\<forall>d \<in> set docs. score_key d = Inr (score_of d))
      \<and> sorted (rev (map score_of docs))
      \<and> (\<forall>s. filter (\<lambda>d. score_of d = s) docs
               = filter (\<lambda>d. score_of d = s) (map (spec_document r) (spec_retained r kwargs)))"
proof -
  let ?cands = "map (spec_document r) (spec_retained r kwargs)"
  let ?docs = "desc_sort score_of ?cands"
  have res: "snd (search_by_vector query self query_vector kwargs w) = Inr ?docs"
    using assms by (simp add: search_by_vector_snd rank_results_eq)
  have ms: "mset ?docs = mset ?cands" by (rule desc_sort_mset)
  have "length ?docs = length (spec_retained r kwargs)"
    using mset_eq_length [OF ms] by simp
  also have "\<dots> \<le> length (first_row (ids r))"
    using length_filter_le [of "\<lambda>i. spec_score r i > get_score_threshold kwargs"
                             "[0 ..< length (first_row (ids r))]"]
    by (simp add: spec_retained_def)
  finally have len: "int (length ?docs) \<le> n_results_of kwargs"
    using assms(3) by linarith
  have "set ?docs = set ?cands" using ms by (rule mset_eq_setD)
  then have keys: "\<forall>d \<in> set ?docs. score_key d = Inr (score_of d)"
    by (auto simp add: score_key_spec_document score_of_spec_document)
  have srt: "sorted (rev (map score_of ?docs))" by (rule desc_sort_sorted)
  have stb: "\<forall>s. filter (\<lambda>d. score_of d = s) ?docs = filter (\<lambda>d. score_of d = s) ?cands"
    by (simp add: desc_sort_stable)
  show ?thesis
  proof (intro exI conjI)
    show "snd (search_by_vector query self query_vector kwargs w) = Inr ?docs" by (rule res)
    show "int (length ?docs) \<le> n_results_of kwargs" by (rule len)
    show "\<forall>d \<in> set ?docs. score_key d = Inr (score_of d)" by (rule keys)
    show "sorted (rev (map score_of ?docs))" by (rule srt)
    show "\<forall>s. filter (\<lambda>d. score_of d = s) ?docs = filter (\<lambda>d. score_of d = s) ?cands"
      by (rule stb)
  qed
qed

theorem search_by_vector_ranked_witness:
  "parallel_rows example_ties
   \<and> int (length (first_row (ids example_ties))) \<le> n_results_of example_kwargs_default
   \<and> snd (search_by_vector (\<lambda>c q n f. example_ties) example_self [9/10, 1/10]
            example_kwargs_default example_world)
       = Inr [\<lparr>page_content = ''b'', metadata = Some [(''score'', PFloat (9/10))]\<rparr>,
              \<lparr>page_content = ''a'', metadata = Some [(''score'', PFloat (1/2))]\<rparr>,
              \<lparr>page_content = ''c'', metadata = Some [(''score'', PFloat (1/2))]\<rparr>]"
proof -
  have a: "example_ties = backend_answer (\<lambda>c q n f. example_ties) example_self [9/10, 1/10]
            example_kwargs_default example_world"
    by (simp add: backend_answer_def)
  have p: "parallel_rows example_ties"
    by (simp add: parallel_rows_def example_ties_def py_not_def first_row_def)
  have n: "int (length (first_row (ids example_ties))) \<le> n_results_of example_kwargs_default"
    by (simp add: example_ties_def first_row_def n_results_of_def example_kwargs_default_def)
  have e: "snd (search_by_vector (\<lambda>c q n f. example_ties) example_self [9/10, 1/10]
            example_kwargs_default example_world)
       = Inr [\<lparr>page_content = ''b'', metadata = Some [(''score'', PFloat (9/10))]\<rparr>,
              \<lparr>page_content = ''a'', metadata = Some [(''score'', PFloat (1/2))]\<rparr>,
              \<lparr>page_content = ''c'', metadata = Some [(''score'', PFloat (1/2))]\<rparr>]"
    by (simp add: eval_defs example_ties_def example_kwargs_default_def upt_rec Let_def)
  show ?thesis using search_by_vector_ranked [OF a p n] p n e by simp
qed

text \<open>
  Claim C3. When the ids, the documents, the metadatas or the distances of the answer
  are absent (\<^verbatim>\<open>None\<close>) or empty, the call returns the empty list: a value, not an
  exception.
\<close>

theorem search_by_vector_malformed_answer:
  assumes "r = backend_answer query self query_vector kwargs w"
    and "py_not (ids r) \<or> py_not (documents r) \<or> py_not (metadatas r) \<or> py_not (distances r)"
  shows "snd (search_by_vector query self query_vector kwargs w) = Inr []"
  using assms by (simp add: search_by_vector_snd rank_results_def)

theorem search_by_vector_malformed_answer_witness:
  "py_not (documents example_malformed)
   \<and> snd (search_by_vector (\<lambda>c q n f. example_malformed) example_self [9/10, 1/10]
            example_kwargs example_world) = Inr []"
proof -
  have a: "example_malformed = backend_answer (\<lambda>c q n f. example_malformed) example_self
             [9/10, 1/10] example_kwargs example_world"
    by (simp add: backend_answer_def)
  have p: "py_not (documents example_malformed)"
    by (simp add: example_malformed_def py_not_def)
  then have "py_not (ids example_malformed) \<or> py_not (documents example_malformed)
      \<or> py_not (metadatas example_malformed) \<or> py_not (distances example_malformed)"
    by simp
  from search_by_vector_malformed_answer [OF a this] p show ?thesis by simp
qed

section \<open>Provisioning, indexing, deleting\<close>

lemma cache_sentinels_truthy:
  assumes "cache_sentinels w"
  shows "py_truthy (map_option fst (map_of (redis w) k)) \<longleftrightarrow> map_of (redis w) k \<noteq> None"
proof (cases "map_of (redis w) k")
  case None
  then show ?thesis by (simp add: py_truthy_def)
next
  case (Some ve)
  then have "(k, ve) \<in> set (redis w)" by (rule map_of_SomeD)
  with assms have "fst ve \<noteq> []"
    by (auto simp add: cache_sentinels_def list_all_iff)
  with Some show ?thesis by (simp add: py_truthy_def)
qed

lemmas world_ops = lock_acquire_def lock_release_def redis_get_def redis_set_def
  get_or_create_collection_def log_call_def

lemma entries_of_update:
  "entries_of (w\<lparr>chroma := AList.update n c (chroma w)\<rparr>) m = (if m = n then c else entries_of w m)"
  by (simp add: entries_of_def update_conv')

lemma entries_of_log [simp]: "entries_of (log_call c w) m = entries_of w m"
  by (simp add: entries_of_def log_call_def)

lemma entries_of_get_or_create [simp]:
  "entries_of (get_or_create_collection n w) m = entries_of w m"
  by (simp add: get_or_create_collection_def entries_of_update split: option.split)
     (simp add: entries_of_def)

lemma upsert_entries_keys:
  "length ds = length is \<Longrightarrow> length es = length is \<Longrightarrow> length ms = length is \<Longrightarrow>
   fst ` set (upsert_entries is ds es ms c) = fst ` set c \<union> set is"
proof (induction "is" arbitrary: ds es ms c)
  case Nil
  then show ?case by simp
next
  case (Cons i "is")
  then obtain d ds' e es' m ms' where "ds = d # ds'" "es = e # es'" "ms = m # ms'"
    by (metis length_Suc_conv)
  with Cons show ?case by (auto simp add: dom_update)
qed

lemma text_exists_snd: "snd (text_exists self ident w) = True"
  by (simp add: text_exists_def collection_get_def Let_def split_def)

lemmas example_defs = example_self_def example_world_def example_docs_def
  example_embeddings_def example_get_uuids_def DEFAULT_TENANT_def DEFAULT_DATABASE_def

lemma example_self_name: "self_collection_name example_self = ''vector_index_d1_node''"
  by (simp add: example_self_def)

lemma example_provisioned:
  "create_collection example_self ''vector_index_d1_node'' example_world
     = \<lparr>redis = [(''vector_indexing_vector_index_d1_node'', ''1'', 3600)],
        chroma = [(''vector_index_d1_node'', [])],
        calls = [LockAcquire ''vector_indexing_lock_vector_index_d1_node'' 20,
                 RedisGet ''vector_indexing_vector_index_d1_node'',
                 GetOrCreateCollection ''vector_index_d1_node'',
                 RedisSet ''vector_indexing_vector_index_d1_node'' ''1'' 3600,
                 LockRelease ''vector_indexing_lock_vector_index_d1_node'']\<rparr>"
  by (simp add: create_collection_def world_ops example_defs py_truthy_def Let_def)

lemma example_indexed_eq:
  "example_indexed
     = \<lparr>redis = [(''vector_indexing_vector_index_d1_node'', ''1'', 3600)],
        chroma = [(''vector_index_d1_node'',
                   [(''id-a'', \<lparr>entry_document = ''a'', entry_embedding = [1, 0],
                               entry_metadata = Some [(''doc_id'', PStr ''id-a'')]\<rparr>),
                    (''id-b'', \<lparr>entry_document = ''b'', entry_embedding = [0, 1],
                               entry_metadata = Some [(''doc_id'', PStr ''id-b'')]\<rparr>)])],
        calls = [LockAcquire ''vector_indexing_lock_vector_index_d1_node'' 20,
                 RedisGet ''vector_indexing_vector_index_d1_node'',
                 GetOrCreateCollection ''vector_index_d1_node'',
                 RedisSet ''vector_indexing_vector_index_d1_node'' ''1'' 3600,
                 LockRelease ''vector_indexing_lock_vector_index_d1_node'',
                 GetOrCreateCollection ''vector_index_d1_node'',
                 Upsert ''vector_index_d1_node'' [''id-a'', ''id-b''] [''a'', ''b'']
                   [[1, 0], [0, 1]]
                   [Some [(''doc_id'', PStr ''id-a'')], Some [(''doc_id'', PStr ''id-b'')]]]\<rparr>"
proof -
  have "example_docs \<noteq> []" by (simp add: example_docs_def)
  then have "example_indexed = fst (add_texts example_get_uuids example_self example_docs
      example_embeddings
      (create_collection example_self (self_collection_name example_self) example_world))"
    by (simp add: example_indexed_def create_def)
  then show ?thesis
    by (simp add: example_self_name example_provisioned)
       (simp add: add_texts_def collection_upsert_def world_ops entries_of_def
          example_self_def example_docs_def example_embeddings_def example_get_uuids_def Let_def)
qed

text \<open>
  Claim C4. The calls that \<^verbatim>\<open>create_collection\<close> issues, in order. The lock named for
  the collection is acquired with a timeout of 20 seconds and released last, so all
  other calls happen while it is held, and the first of them reads the cache entry. If
  the entry is present, nothing else happens: no backend call, and the cache and the
  backend are as before. If it is absent, the backend's get-or-create call is issued
  once, then the entry is set with an expiry of 3600 seconds. Every value in the cache
  store is a sentinel, as the adapter writes them: an entry holding empty bytes would be
  read as absent by line 63.
\<close>

theorem create_collection_provisioning:
  assumes "cache_sentinels w"
  shows "(map_of (redis w) (cache_key_of self) \<noteq> None \<longrightarrow>
            calls (create_collection self collection_name w)
              = calls w @ [LockAcquire (lock_name_of collection_name) 20,
                           RedisGet (cache_key_of self),
                           LockRelease (lock_name_of collection_name)]
          \<and> redis (create_collection self collection_name w) = redis w
          \<and> chroma (create_collection self collection_name w) = chroma w)
       \<and> (map_of (redis w) (cache_key_of self) = None \<longrightarrow>
            calls (create_collection self collection_name w)
              = calls w @ [LockAcquire (lock_name_of collection_name) 20,
                           RedisGet (cache_key_of self),
                           GetOrCreateCollection collection_name,
                           RedisSet (cache_key_of self) ''1'' 3600,
                           LockRelease (lock_name_of collection_name)]
          \<and> map_of (redis (create_collection self collection_name w)) (cache_key_of self)
              = Some (''1'', 3600))"
proof -
  have t: "py_truthy (map_option fst (map_of (redis w) (cache_key_of self)))
             \<longleftrightarrow> map_of (redis w) (cache_key_of self) \<noteq> None"
    using assms by (rule cache_sentinels_truthy)
  show ?thesis
  proof (cases "map_of (redis w) (cache_key_of self)")
    case None
    with t have "\<not> py_truthy (map_option fst (map_of (redis w) (cache_key_of self)))" by simp
    with None show ?thesis
      by (simp add: create_collection_def world_ops Let_def cache_key_of_def lock_name_of_def
            update_conv' split: option.split)
  next
    case (Some ve)
    with t have "py_truthy (map_option fst (map_of (redis w) (cache_key_of self)))" by simp
    with Some show ?thesis
      by (simp add: create_collection_def world_ops Let_def cache_key_of_def lock_name_of_def)
  qed
qed

theorem create_collection_provisioning_witness:
  "cache_sentinels example_world
   \<and> map_of (redis example_world) (cache_key_of example_self) = None
   \<and> calls (create_collection example_self ''vector_index_d1_node'' example_world)
       = [LockAcquire ''vector_indexing_lock_vector_index_d1_node'' 20,
          RedisGet ''vector_indexing_vector_index_d1_node'',
          GetOrCreateCollection ''vector_index_d1_node'',
          RedisSet ''vector_indexing_vector_index_d1_node'' ''1'' 3600,
          LockRelease ''vector_indexing_lock_vector_index_d1_node'']
   \<and> map_of (redis (create_collection example_self ''vector_index_d1_node'' example_world))
         (cache_key_of example_self) = Some (''1'', 3600)"
proof -
  have s: "cache_sentinels example_world"
    by (simp add: cache_sentinels_def example_world_def)
  have n: "map_of (redis example_world) (cache_key_of example_self) = None"
    by (simp add: example_world_def)
  from create_collection_provisioning [OF s, of example_self "''vector_index_d1_node''"] n s show ?thesis
    by (simp add: lock_name_of_def cache_key_of_def example_self_def example_world_def)
qed

text \<open>
  Claim C5. For a non-empty list of Documents and as many embeddings, with one id of
  its own assigned to each Document, \<^verbatim>\<open>create\<close> returns without an error and, in the
  world it leaves, \<^verbatim>\<open>text_exists\<close> is true for every assigned id; the id is then among
  the entries of the collection.
\<close>

theorem create_then_text_exists:
  assumes "texts \<noteq> []"
    and "length embeddings = length texts"
    and "length (get_uuids texts) = length texts"
    and "distinct (get_uuids texts)"
  shows "\<exists>w'. create get_uuids self texts embeddings w = (w', Inr ())
      \<and> (\<forall>i \<in> set (get_uuids texts).
            snd (text_exists self i w') = True
          \<and> i \<in> fst ` set (entries_of w' (self_collection_name self)))"
proof -
  let ?n = "self_collection_name self"
  let ?w1 = "get_or_create_collection ?n (create_collection self ?n w)"
  let ?w2 = "log_call (Upsert ?n (get_uuids texts) (map page_content texts) embeddings
                 (map metadata texts)) ?w1"
  let ?c = "upsert_entries (get_uuids texts) (map page_content texts) embeddings
              (map metadata texts) (entries_of ?w2 ?n)"
  let ?w' = "?w2\<lparr>chroma := AList.update ?n ?c (chroma ?w2)\<rparr>"
  have cr: "create get_uuids self texts embeddings w = (?w', Inr ())"
    using assms by (simp add: create_def add_texts_def collection_upsert_def Let_def)
  have "fst ` set ?c = fst ` set (entries_of ?w2 ?n) \<union> set (get_uuids texts)"
    using assms by (intro upsert_entries_keys) simp_all
  then have mem: "\<forall>i \<in> set (get_uuids texts). i \<in> fst ` set (entries_of ?w' ?n)"
    by (simp add: entries_of_update)
  show ?thesis
  proof (intro exI conjI ballI)
    show "create get_uuids self texts embeddings w = (?w', Inr ())" by (rule cr)
  next
    fix i assume "i \<in> set (get_uuids texts)"
    show "snd (text_exists self i ?w') = True" by (rule text_exists_snd)
  next
    fix i assume "i \<in> set (get_uuids texts)"
    with mem show "i \<in> fst ` set (entries_of ?w' ?n)" by blast
  qed
qed

theorem create_then_text_exists_witness:
  "example_docs \<noteq> []
   \<and> length example_embeddings = length example_docs
   \<and> example_get_uuids example_docs = [''id-a'', ''id-b'']
   \<and> snd (create example_get_uuids example_self example_docs example_embeddings example_world)
       = Inr ()
   \<and> snd (text_exists example_self ''id-a'' example_indexed) = True
   \<and> snd (text_exists example_self ''id-b'' example_indexed) = True"
proof -
  have h1: "example_docs \<noteq> []" by (simp add: example_docs_def)
  have h2: "length example_embeddings = length example_docs"
    by (simp add: example_docs_def example_embeddings_def)
  have u: "example_get_uuids example_docs = [''id-a'', ''id-b'']"
    by (simp add: example_get_uuids_def example_docs_def)
  have h3: "length (example_get_uuids example_docs) = length example_docs"
    by (simp add: u) (simp add: example_docs_def)
  have h4: "distinct (example_get_uuids example_docs)" by (simp add: u)
  from create_then_text_exists [where texts = example_docs and embeddings = example_embeddings
        and get_uuids = example_get_uuids and self = example_self and w = example_world,
      OF h1 h2 h3 h4] h1 h2 u
  show ?thesis
    by (auto simp add: example_indexed_def)
qed

text \<open>
  Claim C6. With an empty list of Documents \<^verbatim>\<open>create\<close> changes nothing: the world,
  and so the log of calls, is as before. With a non-empty list it is \<^verbatim>\<open>add_texts\<close>, on
  the same Documents and embeddings, run in the world that \<^verbatim>\<open>create_collection\<close>
  leaves: the calls of the provisioning come first, then the get-or-create and the
  upsert of \<^verbatim>\<open>add_texts\<close>.
\<close>

theorem create_provisions_then_adds:
  "create get_uuids self [] embeddings w = (w, Inr ())
   \<and> (texts \<noteq> [] \<longrightarrow>
        create get_uuids self texts embeddings w
          = add_texts get_uuids self texts embeddings
              (create_collection self (self_collection_name self) w)
      \<and> calls (fst (create get_uuids self texts embeddings w))
          = calls (create_collection self (self_collection_name self) w)
            @ [GetOrCreateCollection (self_collection_name self),
               Upsert (self_collection_name self) (get_uuids texts) (map page_content texts)
                 embeddings (map metadata texts)])"
  by (simp add: create_def add_texts_def collection_upsert_def get_or_create_collection_def
        log_call_def Let_def split: option.split)

theorem create_provisions_then_adds_witness:
  "example_docs \<noteq> []
   \<and> calls (fst (create example_get_uuids example_self example_docs example_embeddings
                   example_world))
       = [LockAcquire ''vector_indexing_lock_vector_index_d1_node'' 20,
          RedisGet ''vector_indexing_vector_index_d1_node'',
          GetOrCreateCollection ''vector_index_d1_node'',
          RedisSet ''vector_indexing_vector_index_d1_node'' ''1'' 3600,
          LockRelease ''vector_indexing_lock_vector_index_d1_node'',
          GetOrCreateCollection ''vector_index_d1_node'',
          Upsert ''vector_index_d1_node'' [''id-a'', ''id-b''] [''a'', ''b'']
            [[1, 0], [0, 1]]
            [Some [(''doc_id'', PStr ''id-a'')], Some [(''doc_id'', PStr ''id-b'')]]]
   \<and> create example_get_uuids example_self [] example_embeddings example_world
       = (example_world, Inr ())"
proof -
  have h: "example_docs \<noteq> []" by (simp add: example_docs_def)
  have u: "example_get_uuids example_docs = [''id-a'', ''id-b'']"
    by (simp add: example_get_uuids_def example_docs_def)
  have n: "self_collection_name example_self = ''vector_index_d1_node''"
    by (simp add: example_self_def)
  from create_provisions_then_adds [of example_get_uuids example_self example_embeddings example_world example_docs] h
  have "calls (fst (create example_get_uuids example_self example_docs example_embeddings
                   example_world))
          = calls (create_collection example_self (self_collection_name example_self)
                     example_world)
            @ [GetOrCreateCollection (self_collection_name example_self),
               Upsert (self_collection_name example_self) (example_get_uuids example_docs)
                 (map page_content example_docs) example_embeddings
                 (map metadata example_docs)]"
    and "create example_get_uuids example_self [] example_embeddings example_world
          = (example_world, Inr ())"
    by blast+
  with h show ?thesis
    by (simp add: n example_provisioned u) (simp add: example_docs_def example_embeddings_def)
qed

text \<open>
  Claim C7. With an empty list of ids \<^verbatim>\<open>delete_by_ids\<close> returns the world as it is:
  no backend call. With ids of which none is in the collection it returns (the
  function has no error result) and the entries of every collection are as before.
\<close>

theorem delete_by_ids_absent:
  "delete_by_ids self [] w = w
   \<and> (set id_list \<inter> fst ` set (entries_of w (self_collection_name self)) = {} \<longrightarrow>
        (\<forall>name. entries_of (delete_by_ids self id_list w) name = entries_of w name))"
proof (intro conjI impI allI)
  show "delete_by_ids self [] w = w" by (simp add: delete_by_ids_def)
next
  fix name
  assume d: "set id_list \<inter> fst ` set (entries_of w (self_collection_name self)) = {}"
  then have "\<forall>kv \<in> set (entries_of w (self_collection_name self)). fst kv \<notin> set id_list"
    by auto
  then have "filter (\<lambda>kv. fst kv \<notin> set id_list) (entries_of w (self_collection_name self))
             = entries_of w (self_collection_name self)"
    by (simp add: filter_id_conv)
  then show "entries_of (delete_by_ids self id_list w) name = entries_of w name"
    by (simp add: delete_by_ids_def collection_delete_def Let_def entries_of_update)
qed

theorem delete_by_ids_absent_witness:
  "set [''id-z''] \<inter> fst ` set (entries_of example_indexed (self_collection_name example_self)) = {}
   \<and> entries_of (delete_by_ids example_self [''id-z''] example_indexed) ''vector_index_d1_node''
       = entries_of example_indexed ''vector_index_d1_node''
   \<and> map fst (entries_of example_indexed ''vector_index_d1_node'') = [''id-a'', ''id-b'']
   \<and> delete_by_ids example_self [] example_indexed = example_indexed"
proof -
  have e: "map fst (entries_of example_indexed ''vector_index_d1_node'') = [''id-a'', ''id-b'']"
    by (simp add: example_indexed_eq entries_of_def)
  have n: "self_collection_name example_self = ''vector_index_d1_node''"
    by (simp add: example_self_def)
  have "fst ` set (entries_of example_indexed ''vector_index_d1_node'') = {''id-a'', ''id-b''}"
    using e by (metis list.set(1) list.set(2) set_map)
  then have d: "set [''id-z''] \<inter> fst ` set (entries_of example_indexed
                  (self_collection_name example_self)) = {}"
    by (simp add: n)
  from delete_by_ids_absent [of example_self example_indexed "[''id-z'']"] d e show ?thesis
    by (simp add: n)
qed

text \<open>
  Claim C8. \<^verbatim>\<open>search_by_full_text\<close> returns the empty list for every query and every
  keyword arguments, without touching the world.
\<close>

theorem search_by_full_text_empty: "search_by_full_text self query kwargs w = (w, Inr [])"
  by (simp add: search_by_full_text_def)

text \<open>
  Claim C10. \<^verbatim>\<open>text_exists\<close> is true for every id, in every world, so also for an id
  that was never added: the result of \<^verbatim>\<open>get\<close> always has its result fields, and
  \<^verbatim>\<open>len\<close> counts those, not the entries found.
\<close>

theorem text_exists_always_true: "snd (text_exists self ident w) = True"
  by (simp add: text_exists_def collection_get_def Let_def split_def)

section \<open>The factory\<close>

lemma lower_idem: "lower (lower s) = lower s"
  by (induction s) (auto simp add: lower_def lower_char_def)

text \<open>
  Claim C9. For a dataset without an index structure, \<^verbatim>\<open>init_vector\<close> returns an
  adapter for the lowercased name derived from the dataset id and stores that name
  in the index structure of the dataset; called again on the dataset it returned,
  it leaves the dataset as it is and returns the same adapter, so the same name.
\<close>

theorem init_vector_round_trip:
  assumes "\<not> json_truthy (index_struct_dict dataset)"
  shows "\<exists>dataset1 v.
           init_vector gen_collection_name_by_id vector_type dify_config dataset = Inr (dataset1, v)
         \<and> self_collection_name v = lower (gen_collection_name_by_id (id' dataset))
         \<and> id' dataset1 = id' dataset
         \<and> index_struct dataset1
             = Some (JObject [(''type'', JString vector_type),
                              (''vector_store'',
                               JObject [(''class_prefix'', JString (self_collection_name v))])])
         \<and> init_vector gen_collection_name_by_id vector_type dify_config dataset1
             = Inr (dataset1, v)"
  using assms
  by (simp add: init_vector_def Let_def index_struct_dict_def json_truthy_def json_item_def
        lower_idem)

theorem init_vector_round_trip_witness:
  "\<not> json_truthy (index_struct_dict example_dataset)
   \<and> (\<exists>dataset1 v.
        init_vector example_gen ''chroma'' example_config example_dataset = Inr (dataset1, v)
      \<and> self_collection_name v = ''vector_index_d1_node''
      \<and> init_vector example_gen ''chroma'' example_config dataset1 = Inr (dataset1, v))"
proof -
  have h: "\<not> json_truthy (index_struct_dict example_dataset)"
    by (simp add: json_truthy_def index_struct_dict_def example_dataset_def)
  have l: "lower (example_gen (id' example_dataset)) = ''vector_index_d1_node''"
    unfolding example_gen_def example_dataset_def by code_simp
  from init_vector_round_trip [OF h, of example_gen "''chroma''" example_config] h show ?thesis
    by (simp add: l) blast
qed

end
